theory Spec2Isabelle
  imports Main "HOL-Library.Sublist"
begin

section \<open>The PAN-OS driver: transaction core of \<open>napalm_panos/panos.py\<close>\<close>

text \<open>
  The driver talks to a firewall over three outside channels: the XML API object
  (\<open>pan.xapi.PanXapi\<close>), an interactive shell session (\<open>netmiko\<close>) and plain
  HTTP and file access. None of them is part of the program. The embedding therefore
  records every call that leaves the program as an \<open>event\<close> in a trace, and takes the
  answer from an environment: a function from the trace so far (with the call just
  made as its last element) to a reply. A reply is either an exception raised by the
  outside call or the string it yields. Every theorem below holds for every
  environment, so for every possible behaviour of the device.

  Python exceptions are values of the type \<open>exn\<close>; a method of the driver is a function
  from the driver's state to a result (\<open>Inl\<close> the exception raised, \<open>Inr\<close> the value
  returned) together with the state at that point, since a raise keeps every
  assignment made before it.
\<close>

subsection \<open>Exceptions, events and the environment\<close>

datatype exn =
    ReplaceConfigException string
  | MergeConfigException string
  | LockError string
  | UnlockError string
  | PanXapiError string
  | ConnectionException string
  | NotImplementedError string
  | AttributeError string
  | OSError string
  | OtherError string

text \<open>
  The calls that leave the program. A \<open>nat\<close> names the \<open>PanXapi\<close> object the call is
  made on. \<open>XapiOp\<close> answers with the \<open>status\<close> attribute the object carries after
  \<open>op\<close>; \<open>XapiXmlRoot\<close> with the document; \<open>HttpImport\<close> (the multipart upload of
  \<open>_import_file\<close>, from opening the file to parsing the response) with the response's
  \<open>status\<close> attribute; \<open>DateNow\<close> with \<open>str(datetime.now().date())\<close>;
  \<open>SshIsActive\<close> with \<open>''True''\<close> or anything else. \<open>Sleep\<close> is recorded only.
\<close>

datatype event =
    NewXapi
  | XapiOp nat string
  | XapiShow nat
  | XapiXmlRoot nat
  | XapiKeygen nat
  | HttpImport string string string
  | DateNow
  | ReadFile string
  | SshConnect
  | SshSendConfigSet "string list"
  | SshCommit "string option"
  | SshExitConfigMode
  | SshSendCommand string
  | SshDisconnect
  | SshIsActive
  | Sleep nat

datatype reply = Raise exn | Return string

type_synonym env = "event list \<Rightarrow> reply"

subsection \<open>Strings\<close>

text \<open>Python's truth value of an optional string: \<open>None\<close> and \<open>""\<close> are false.\<close>

definition truthy :: "string option \<Rightarrow> bool" where
  "truthy v = (case v of None \<Rightarrow> False | Some x \<Rightarrow> x \<noteq> [])"

text \<open>The string an optional argument holds, read only where \<open>truthy\<close> has been checked.\<close>

definition text_of :: "string option \<Rightarrow> string" where
  "text_of v = (case v of None \<Rightarrow> [] | Some x \<Rightarrow> x)"

text \<open>\<open>os.path.basename\<close>: what follows the last slash.\<close>

definition basename :: "string \<Rightarrow> string" where
  "basename p = rev (takeWhile (\<lambda>c. c \<noteq> CHR ''/'') (rev p))"

text \<open>
  \<open>str.splitlines\<close> over the ASCII line boundaries (line feed, carriage return and
  the pair of both, vertical tab, form feed, the three separators \<open>0x1c\<close> to \<open>0x1e\<close>).
\<close>

definition is_linebreak :: "char \<Rightarrow> bool" where
  "is_linebreak c = (c \<in> {CHR 0x0A, CHR 0x0D, CHR 0x0B, CHR 0x0C, CHR 0x1C, CHR 0x1D, CHR 0x1E})"

fun splitlines_from :: "string \<Rightarrow> string \<Rightarrow> string list" where
  "splitlines_from cur [] = (if cur = [] then [] else [cur])"
| "splitlines_from cur [c] = (if is_linebreak c then [cur] else [cur @ [c]])"
| "splitlines_from cur (c # d # cs) =
     (if c = CHR 0x0D \<and> d = CHR 0x0A then cur # splitlines_from [] cs
      else if is_linebreak c then cur # splitlines_from [] (d # cs)
      else splitlines_from (cur @ [c]) (d # cs))"

definition splitlines :: "string \<Rightarrow> string list" where
  "splitlines s = splitlines_from [] s"

text \<open>\<open>str.strip()\<close> over the ASCII white space.\<close>

definition is_space :: "char \<Rightarrow> bool" where
  "is_space c = (c \<in> {CHR '' '', CHR 0x09, CHR 0x0A, CHR 0x0B, CHR 0x0C, CHR 0x0D,
                       CHR 0x1C, CHR 0x1D, CHR 0x1E, CHR 0x1F})"

definition strip :: "string \<Rightarrow> string" where
  "strip s = rev (dropWhile is_space (rev (dropWhile is_space s)))"

subsection \<open>Sequencing\<close>

text \<open>
  \<open>then_do m f\<close> runs \<open>f\<close> on the value and the state \<open>m\<close> ended in; an exception of
  \<open>m\<close> ends the whole computation in the state \<open>m\<close> left.
\<close>

definition then_do ::
  "(exn + 'a) \<times> 's \<Rightarrow> ('a \<Rightarrow> 's \<Rightarrow> (exn + 'b) \<times> 's) \<Rightarrow> (exn + 'b) \<times> 's" where
  "then_do m f = (case m of (Inl x, s) \<Rightarrow> (Inl x, s) | (Inr v, s) \<Rightarrow> f v s)"

subsection \<open>\<open>PANOSLock\<close>\<close>

record lock_obj =
  lk_device :: nat
  lk_comment :: string
  locked :: bool

definition LOCK_TYPES :: "string list" where
  "LOCK_TYPES = [''config'', ''commit'']"

definition TAKE_LOCK_API_CMD :: "string \<Rightarrow> string \<Rightarrow> string" where
  "TAKE_LOCK_API_CMD t c =
     ''<request><'' @ t @ ''-lock><add><comment>'' @ c @ ''</comment></add></'' @ t @ ''-lock></request>''"

definition RELEASE_LOCK_API_CMD :: "string \<Rightarrow> string" where
  "RELEASE_LOCK_API_CMD t =
     ''<request><'' @ t @ ''-lock><remove></remove></'' @ t @ ''-lock></request>''"

definition PANOSLock :: "nat \<Rightarrow> string \<Rightarrow> lock_obj" where
  "PANOSLock dev comment = \<lparr>lk_device = dev, lk_comment = comment, locked = False\<rparr>"

text \<open>
  The loop of \<open>lock\<close> over \<open>LOCK_TYPES\<close>: a \<open>PanXapiError\<close> of \<open>op\<close> becomes a
  \<open>LockError\<close> and ends the loop; any other exception passes through unchanged.
\<close>

fun take_locks :: "env \<Rightarrow> lock_obj \<Rightarrow> string list \<Rightarrow> event list \<Rightarrow> (exn + unit) \<times> event list" where
  "take_locks env l [] tr = (Inr (), tr)"
| "take_locks env l (t # ts) tr =
     (let tr' = tr @ [XapiOp (lk_device l) (TAKE_LOCK_API_CMD t (lk_comment l))] in
      case env tr' of
        Raise x \<Rightarrow>
          (case x of
             PanXapiError e \<Rightarrow> (Inl (LockError (''Failed to aquire '' @ t @ ''-lock: '' @ e)), tr')
           | _ \<Rightarrow> (Inl x, tr'))
      | Return _ \<Rightarrow> take_locks env l ts tr')"

definition lock :: "env \<Rightarrow> lock_obj \<Rightarrow> event list \<Rightarrow> (exn + unit) \<times> lock_obj \<times> event list" where
  "lock env l tr =
     (if locked l then (Inr (), l, tr)
      else case take_locks env l LOCK_TYPES tr of
             (Inl x, tr') \<Rightarrow> (Inl x, l, tr')
           | (Inr _, tr') \<Rightarrow> (Inr (), l\<lparr>locked := True\<rparr>, tr'))"

fun release_locks :: "env \<Rightarrow> lock_obj \<Rightarrow> string list \<Rightarrow> event list \<Rightarrow> (exn + unit) \<times> event list" where
  "release_locks env l [] tr = (Inr (), tr)"
| "release_locks env l (t # ts) tr =
     (let tr' = tr @ [XapiOp (lk_device l) (RELEASE_LOCK_API_CMD t)] in
      case env tr' of
        Raise x \<Rightarrow>
          (case x of
             PanXapiError e \<Rightarrow> (Inl (UnlockError (''Failed to release '' @ t @ ''-lock: '' @ e)), tr')
           | _ \<Rightarrow> (Inl x, tr'))
      | Return _ \<Rightarrow> release_locks env l ts tr')"

definition unlock :: "env \<Rightarrow> lock_obj \<Rightarrow> event list \<Rightarrow> (exn + unit) \<times> lock_obj \<times> event list" where
  "unlock env l tr =
     (if locked l = False then (Inr (), l, tr)
      else case release_locks env l LOCK_TYPES tr of
             (Inl x, tr') \<Rightarrow> (Inl x, l, tr')
           | (Inr _, tr') \<Rightarrow> (Inr (), l\<lparr>locked := False\<rparr>, tr'))"

subsection \<open>\<open>PANOSDriver\<close>: the state\<close>

record driver =
  hostname :: string
  api_key :: string
  loaded :: bool
  changed :: bool
  device :: "nat option"
  ssh_connection :: bool
  merge_config :: bool
  lock_object :: "lock_obj option"
  session_config_lock :: bool
  session_config_lock_comment :: string
  backup_file :: "string option"
  trace :: "event list"

text \<open>
  \<open>__init__\<close>: the arguments are the host name and the entries \<open>api_key\<close>,
  \<open>config_lock\<close> and \<open>config_lock_comment\<close> of \<open>optional_args\<close> (user name, password,
  timeout and the shell library's options only travel to the outside constructors).
  The attribute \<open>backup_file\<close> does not exist before \<open>_save_backup\<close> has run.
\<close>

definition init :: "string \<Rightarrow> string \<Rightarrow> bool \<Rightarrow> string \<Rightarrow> driver" where
  "init host key config_lock config_lock_comment =
     \<lparr>hostname = host, api_key = key, loaded = False, changed = False, device = None,
      ssh_connection = False, merge_config = False, lock_object = None,
      session_config_lock = config_lock, session_config_lock_comment = config_lock_comment,
      backup_file = None, trace = []\<rparr>"

text \<open>An outside call made by the driver: recorded, and answered by the environment.\<close>

definition xcall :: "env \<Rightarrow> event \<Rightarrow> driver \<Rightarrow> (exn + string) \<times> driver" where
  "xcall env ev s =
     (let tr = trace s @ [ev] in
      case env tr of
        Raise x \<Rightarrow> (Inl x, s\<lparr>trace := tr\<rparr>)
      | Return v \<Rightarrow> (Inr v, s\<lparr>trace := tr\<rparr>))"

text \<open>\<open>time.sleep(n)\<close>.\<close>

definition sleep :: "nat \<Rightarrow> driver \<Rightarrow> driver" where
  "sleep n s = s\<lparr>trace := trace s @ [Sleep n]\<rparr>"

text \<open>
  \<open>self.device.op(cmd=...)\<close> followed by reading \<open>self.device.status\<close>; on a driver
  that is not open \<open>self.device\<close> is \<open>None\<close> and the attribute access raises.
\<close>

definition device_op :: "env \<Rightarrow> string \<Rightarrow> driver \<Rightarrow> (exn + string) \<times> driver" where
  "device_op env cmd s =
     (case device s of
        None \<Rightarrow> (Inl (AttributeError ''NoneType object has no attribute op''), s)
      | Some d \<Rightarrow> xcall env (XapiOp d cmd) s)"

text \<open>A method call on the lock object held by the driver.\<close>

definition on_lock ::
  "(lock_obj \<Rightarrow> event list \<Rightarrow> (exn + unit) \<times> lock_obj \<times> event list) \<Rightarrow> lock_obj \<Rightarrow> driver
     \<Rightarrow> (exn + unit) \<times> driver" where
  "on_lock m l s =
     (case m l (trace s) of (r, l', tr') \<Rightarrow> (r, s\<lparr>lock_object := Some l', trace := tr'\<rparr>))"

subsection \<open>Opening and closing the session\<close>

text \<open>
  \<open>open\<close>: the new \<open>PanXapi\<close> object is named by the length of the trace at its
  construction. The lock object is created once and keeps the device it was created
  with.
\<close>

definition "open" :: "env \<Rightarrow> driver \<Rightarrow> (exn + unit) \<times> driver" where
  "open env s =
     then_do (xcall env NewXapi s) (\<lambda>_ s1.
       let s2 = s1\<lparr>device := Some (length (trace s))\<rparr> in
       if session_config_lock s2 then
         (let l = (case lock_object s2 of
                     None \<Rightarrow> PANOSLock (length (trace s)) (session_config_lock_comment s2)
                   | Some l0 \<Rightarrow> l0)
          in on_lock (lock env) l s2)
       else (Inr (), s2))"

definition open_ssh :: "env \<Rightarrow> driver \<Rightarrow> (exn + unit) \<times> driver" where
  "open_ssh env s =
     then_do (xcall env SshConnect s) (\<lambda>_ s1. (Inr (), s1\<lparr>ssh_connection := True\<rparr>))"

text \<open>The recurring \<open>if self.ssh_connection is False: self._open_ssh()\<close>.\<close>

definition ensure_ssh :: "env \<Rightarrow> driver \<Rightarrow> (exn + unit) \<times> driver" where
  "ensure_ssh env s = (if ssh_connection s = False then open_ssh env s else (Inr (), s))"

definition close :: "env \<Rightarrow> driver \<Rightarrow> (exn + unit) \<times> driver" where
  "close env s =
     then_do
       (case lock_object s of
          Some l \<Rightarrow>
            if session_config_lock s then
              then_do (on_lock (unlock env) l s) (\<lambda>_ s1. (Inr (), s1\<lparr>lock_object := None\<rparr>))
            else (Inr (), s)
        | None \<Rightarrow> (Inr (), s))
       (\<lambda>_ s1.
          let s2 = s1\<lparr>device := None\<rparr> in
          if ssh_connection s2 then
            then_do (xcall env SshDisconnect s2) (\<lambda>_ s3. (Inr (), s3\<lparr>ssh_connection := False\<rparr>))
          else (Inr (), s2))"

definition is_alive :: "env \<Rightarrow> driver \<Rightarrow> (exn + bool) \<times> driver" where
  "is_alive env s =
     (case device s of
        Some _ \<Rightarrow>
          if ssh_connection s then
            then_do (xcall env SshIsActive s) (\<lambda>v s1. (Inr (v = ''True''), s1))
          else (Inr True, s)
      | None \<Rightarrow> (Inr False, s))"

subsection \<open>Backup and file import\<close>

definition backup_name :: "string \<Rightarrow> string" where
  "backup_name date = ''config_'' @ map (\<lambda>c. if c = CHR '' '' then CHR ''_'' else c) date @ ''.xml''"

definition save_cmd :: "string \<Rightarrow> string" where
  "save_cmd file = ''<save><config><to>'' @ file @ ''</to></config></save>''"

definition load_cmd :: "string \<Rightarrow> string" where
  "load_cmd file = ''<load><config><from>'' @ file @ ''</from></config></load>''"

definition save_backup :: "env \<Rightarrow> driver \<Rightarrow> (exn + bool) \<times> driver" where
  "save_backup env s =
     then_do (xcall env DateNow s) (\<lambda>date s1.
       let s2 = s1\<lparr>backup_file := Some (backup_name date)\<rparr> in
       then_do (device_op env (save_cmd (backup_name date)) s2) (\<lambda>status s3.
         (Inr (status = ''success''), s3)))"

text \<open>\<open>_import_file\<close> returns \<open>False\<close> (here \<open>None\<close>) or the base name of the file.\<close>

definition import_file :: "env \<Rightarrow> string \<Rightarrow> driver \<Rightarrow> (exn + string option) \<times> driver" where
  "import_file env filename s =
     then_do
       (if api_key s = [] then
          (case device s of
             None \<Rightarrow> (Inl (AttributeError ''NoneType object has no attribute keygen''), s)
           | Some d \<Rightarrow> xcall env (XapiKeygen d) s)
        else (Inr (api_key s), s))
       (\<lambda>key s1.
          then_do (xcall env (HttpImport (hostname s1) key filename) s1) (\<lambda>status s2.
            (Inr (if status = ''error'' then None else Some (basename filename)), s2)))"

subsection \<open>Staging a candidate\<close>

text \<open>
  In \<open>load_replace_candidate\<close> the last \<open>raise\<close> applies \<open>.format\<close> to the exception
  object, not to the message: evaluating the operand of \<open>raise\<close> fails with an
  \<open>AttributeError\<close>, and this is what leaves the method.
\<close>

definition load_replace_candidate ::
  "env \<Rightarrow> string option \<Rightarrow> string option \<Rightarrow> driver \<Rightarrow> (exn + unit) \<times> driver" where
  "load_replace_candidate env filename config s =
     (if truthy config then
        (Inl (ReplaceConfigException ''This method requires a config file.''), s)
      else if truthy filename then
        then_do
          (if loaded s = False then
             then_do (save_backup env s) (\<lambda>ok s1.
               if ok = False then
                 (Inl (ReplaceConfigException ''Error while storing backup config''), s1)
               else (Inr (), s1))
           else (Inr (), s))
          (\<lambda>_ s1.
             then_do (import_file env (text_of filename) s1) (\<lambda>path s2.
               case path of
                 None \<Rightarrow>
                   (Inl (ReplaceConfigException
                      ''Error while trying to move the config file to the device.''), s2)
               | Some p \<Rightarrow>
                   then_do (device_op env (load_cmd p) s2) (\<lambda>status s3.
                     if status = ''success'' then (Inr (), s3\<lparr>loaded := True\<rparr>)
                     else
                       (Inl (AttributeError
                          ''ReplaceConfigException object has no attribute format''), s3))))
      else (Inl (ReplaceConfigException ''This method requires a config file.''), s))"

definition get_file_content :: "env \<Rightarrow> string \<Rightarrow> driver \<Rightarrow> (exn + string) \<times> driver" where
  "get_file_content env filename s =
     (case xcall env (ReadFile filename) s of
        (Inl x, s1) \<Rightarrow>
          (case x of
             OSError _ \<Rightarrow>
               (Inl (MergeConfigException
                  (''Error while opening '' @ filename @ ''. Make sure filename is correct.'')), s1)
           | _ \<Rightarrow> (Inl x, s1))
      | (Inr content, s1) \<Rightarrow> (Inr content, s1))"

text \<open>The \<open>config\<close> argument of \<open>_send_merge_commands\<close> is a string or a list of lines.\<close>

datatype config_arg = ConfigStr string | ConfigLines "string list"

definition send_merge_commands ::
  "env \<Rightarrow> config_arg \<Rightarrow> bool \<Rightarrow> driver \<Rightarrow> (exn + unit) \<times> driver" where
  "send_merge_commands env config file_config s =
     then_do
       (if loaded s = False then
          then_do (save_backup env s) (\<lambda>ok s1.
            if ok = False then
              (Inl (MergeConfigException ''Error while storing backup config.''), s1)
            else (Inr (), s1))
        else (Inr (), s))
       (\<lambda>_ s1.
          then_do (ensure_ssh env s1) (\<lambda>_ s2.
            let lines = (case config of ConfigStr c \<Rightarrow> splitlines c | ConfigLines ls \<Rightarrow> ls) in
            then_do (xcall env (SshSendConfigSet lines) s2) (\<lambda>_ s3.
              (Inr (), s3\<lparr>loaded := True, merge_config := True\<rparr>))))"

definition load_merge_candidate ::
  "env \<Rightarrow> string option \<Rightarrow> string option \<Rightarrow> driver \<Rightarrow> (exn + unit) \<times> driver" where
  "load_merge_candidate env filename config s =
     (if truthy filename then
        then_do (get_file_content env (text_of filename) s) (\<lambda>content s1.
          send_merge_commands env (ConfigLines (splitlines content)) True s1)
      else if truthy config then
        send_merge_commands env (ConfigStr (text_of config)) False s
      else
        (Inl (MergeConfigException ''You must provide either a file or a set-format string''), s))"

subsection \<open>Reading configurations\<close>

definition get_candidate :: "env \<Rightarrow> driver \<Rightarrow> (exn + string) \<times> driver" where
  "get_candidate env s =
     (case device s of
        None \<Rightarrow> (Inl (AttributeError ''NoneType object has no attribute op''), s)
      | Some d \<Rightarrow>
          then_do (xcall env (XapiOp d ''<show><config><candidate></candidate></config></show>'') s)
            (\<lambda>_ s1. xcall env (XapiXmlRoot d) s1))"

definition get_running :: "env \<Rightarrow> driver \<Rightarrow> (exn + string) \<times> driver" where
  "get_running env s =
     (case device s of
        None \<Rightarrow> (Inl (AttributeError ''NoneType object has no attribute show''), s)
      | Some d \<Rightarrow>
          then_do (xcall env (XapiShow d) s) (\<lambda>_ s1. xcall env (XapiXmlRoot d) s1))"

definition configs_dict :: "string \<Rightarrow> string \<Rightarrow> string \<Rightarrow> (string \<rightharpoonup> string)" where
  "configs_dict running candidate startup =
     [''running'' \<mapsto> running, ''candidate'' \<mapsto> candidate, ''startup'' \<mapsto> startup]"

definition get_config ::
  "env \<Rightarrow> string \<Rightarrow> bool \<Rightarrow> bool \<Rightarrow> driver \<Rightarrow> (exn + (string \<rightharpoonup> string)) \<times> driver" where
  "get_config env retrieve full sanitized s =
     (if full then
        (Inl (NotImplementedError ''Full config is not implemented for this platform''), s)
      else if sanitized then
        (Inl (NotImplementedError ''Sanitized is not implemented for this platform''), s)
      else if retrieve = ''all'' then
        then_do (get_running env s) (\<lambda>running s1.
          then_do (get_candidate env s1) (\<lambda>candidate s2.
            (Inr (configs_dict running candidate []), s2)))
      else if retrieve = ''running'' then
        then_do (get_running env s) (\<lambda>running s1. (Inr (configs_dict running [] []), s1))
      else if retrieve = ''candidate'' then
        then_do (get_candidate env s) (\<lambda>candidate s1. (Inr (configs_dict [] candidate []), s1))
      else (Inr (configs_dict [] [] []), s))"

definition compare_config :: "env \<Rightarrow> driver \<Rightarrow> (exn + string) \<times> driver" where
  "compare_config env s =
     then_do (ensure_ssh env s) (\<lambda>_ s1.
       then_do (xcall env SshExitConfigMode s1) (\<lambda>_ s2.
         then_do (xcall env (SshSendCommand ''show config diff'') s2) (\<lambda>diff s3.
           (Inr (strip diff), s3))))"

subsection \<open>Commit, discard, rollback\<close>

text \<open>
  \<open>commit_config\<close>: the bare \<open>except\<close> around the shell commit turns every exception
  into the one of the staging kind; opening the shell session stands before the
  \<open>try\<close>. The locks are taken again after the \<open>if\<close>/\<open>else\<close>, so only when the branch
  above has not raised.
\<close>

definition commit_config :: "env \<Rightarrow> string \<Rightarrow> driver \<Rightarrow> (exn + unit) \<times> driver" where
  "commit_config env message s =
     then_do
       (if loaded s then
          then_do (ensure_ssh env s) (\<lambda>_ s1.
            case xcall env (SshCommit (Some message)) s1 of
              (Inr _, s2) \<Rightarrow> (Inr (), (sleep 3 s2)\<lparr>loaded := False, changed := True\<rparr>)
            | (Inl _, s2) \<Rightarrow>
                if merge_config s2 then
                  (Inl (MergeConfigException ''Error while commiting config''), s2)
                else (Inl (ReplaceConfigException ''Error while commiting config''), s2))
        else (Inl (ReplaceConfigException ''No config loaded.''), s))
       (\<lambda>_ s3.
          if session_config_lock s3 then
            (case lock_object s3 of
               None \<Rightarrow> (Inl (AttributeError ''NoneType object has no attribute locked''), s3)
             | Some l \<Rightarrow> on_lock (lock env) (l\<lparr>locked := False\<rparr>) s3)
          else (Inr (), s3))"

text \<open>Reading \<open>self.backup_file\<close> before \<open>_save_backup\<close> has ever run raises.\<close>

definition load_backup :: "env \<Rightarrow> driver \<Rightarrow> (exn + string) \<times> driver" where
  "load_backup env s =
     (case backup_file s of
        None \<Rightarrow> (Inl (AttributeError ''PANOSDriver object has no attribute backup_file''), s)
      | Some b \<Rightarrow> device_op env (load_cmd b) s)"

definition discard_config :: "env \<Rightarrow> driver \<Rightarrow> (exn + unit) \<times> driver" where
  "discard_config env s =
     (if loaded s then
        then_do (load_backup env s) (\<lambda>status s1.
          if status = ''success'' then (Inr (), s1\<lparr>loaded := False, merge_config := False\<rparr>)
          else (Inl (ReplaceConfigException ''Error while loading backup config.''), s1))
      else (Inr (), s))"

text \<open>
  \<open>rollback\<close>: the handler of the shell commit builds an exception object and drops
  it, so a failed commit ends the method normally.
\<close>

definition rollback :: "env \<Rightarrow> driver \<Rightarrow> (exn + unit) \<times> driver" where
  "rollback env s =
     (if changed s then
        then_do (load_backup env s) (\<lambda>_ s1.
          then_do (ensure_ssh env (sleep 5 s1)) (\<lambda>_ s2.
            case xcall env (SshCommit None) s2 of
              (Inr _, s3) \<Rightarrow>
                (Inr (), s3\<lparr>loaded := False, changed := False, merge_config := False\<rparr>)
            | (Inl _, s3) \<Rightarrow> (Inr (), s3)))
      else (Inr (), s))"

subsection \<open>Sequences of public operations\<close>

text \<open>
  The public operations of the transaction core, with their arguments. A caller may go
  on after an exception, so a run keeps the state an operation ended in whether it
  returned or raised.
\<close>

datatype operation =
    Open
  | Close
  | IsAlive
  | GetConfig string bool bool
  | LoadReplaceCandidate "string option" "string option"
  | LoadMergeCandidate "string option" "string option"
  | CompareConfig
  | CommitConfig string
  | DiscardConfig
  | Rollback

text \<open>The exception an operation raised, if any, and the state it ended in.\<close>

definition outcome :: "(exn + 'a) \<times> driver \<Rightarrow> exn option \<times> driver" where
  "outcome m = (case m of (Inl x, s) \<Rightarrow> (Some x, s) | (Inr _, s) \<Rightarrow> (None, s))"

fun step :: "env \<Rightarrow> driver \<Rightarrow> operation \<Rightarrow> exn option \<times> driver" where
  "step env s Open = outcome (open env s)"
| "step env s Close = outcome (close env s)"
| "step env s IsAlive = outcome (is_alive env s)"
| "step env s (GetConfig retrieve full sanitized) = outcome (get_config env retrieve full sanitized s)"
| "step env s (LoadReplaceCandidate filename config) =
     outcome (load_replace_candidate env filename config s)"
| "step env s (LoadMergeCandidate filename config) =
     outcome (load_merge_candidate env filename config s)"
| "step env s CompareConfig = outcome (compare_config env s)"
| "step env s (CommitConfig message) = outcome (commit_config env message s)"
| "step env s DiscardConfig = outcome (discard_config env s)"
| "step env s Rollback = outcome (rollback env s)"

fun run :: "env \<Rightarrow> driver \<Rightarrow> operation list \<Rightarrow> driver" where
  "run env s [] = s"
| "run env s (c # cs) = run env (snd (step env s c)) cs"

section \<open>Notions used in the statements\<close>

text \<open>The two commands \<open>lock\<close> and \<open>unlock\<close> send for a lock kind.\<close>

definition take_lock_event :: "lock_obj \<Rightarrow> string \<Rightarrow> event" where
  "take_lock_event l t = XapiOp (lk_device l) (TAKE_LOCK_API_CMD t (lk_comment l))"

definition release_lock_event :: "lock_obj \<Rightarrow> string \<Rightarrow> event" where
  "release_lock_event l t = XapiOp (lk_device l) (RELEASE_LOCK_API_CMD t)"


text \<open>
  What the device does is said on the environment alone, not through the driver's
  functions. \<open>returns env tr\<close>: the last call of \<open>tr\<close> comes back without an exception.
\<close>

definition returns :: "env \<Rightarrow> event list \<Rightarrow> bool" where
  "returns env tr = (case env tr of Raise _ \<Rightarrow> False | Return _ \<Rightarrow> True)"

text \<open>
  The shell session: the call that opens it, when the driver has none yet, and whether
  the driver has one after that call, made when the trace is \<open>tr\<close>.
\<close>

definition ssh_events :: "driver \<Rightarrow> event list" where
  "ssh_events s = (if ssh_connection s then [] else [SshConnect])"

definition ssh_opens :: "env \<Rightarrow> event list \<Rightarrow> driver \<Rightarrow> bool" where
  "ssh_opens env tr s = (ssh_connection s \<or> returns env (tr @ [SshConnect]))"

text \<open>
  The commit of \<open>commit_config\<close> succeeds: a candidate is loaded, the shell session is
  there or opens, and the device carries out the commit with the given comment.
\<close>

definition shell_commit_ok :: "env \<Rightarrow> string \<Rightarrow> driver \<Rightarrow> bool" where
  "shell_commit_ok env message s =
     (loaded s \<and> ssh_opens env (trace s) s \<and>
      returns env (trace s @ ssh_events s @ [SshCommit (Some message)]))"

text \<open>
  \<open>discard_config\<close> succeeds: a candidate is loaded and the device answers the command
  that loads the backup file with the status \<open>success\<close>.
\<close>

definition discard_ok :: "env \<Rightarrow> driver \<Rightarrow> bool" where
  "discard_ok env s =
     (loaded s \<and>
      (case device s of
         None \<Rightarrow> False
       | Some d \<Rightarrow>
           (case backup_file s of
              None \<Rightarrow> False
            | Some b \<Rightarrow> env (trace s @ [XapiOp d (load_cmd b)]) = Return ''success'')))"

text \<open>
  \<open>rollback\<close> succeeds: a commit has been made, the command that loads the backup file
  comes back, the shell session is there or opens after the pause, and the device
  carries out the commit.
\<close>

definition rollback_ok :: "env \<Rightarrow> driver \<Rightarrow> bool" where
  "rollback_ok env s =
     (changed s \<and>
      (case device s of
         None \<Rightarrow> False
       | Some d \<Rightarrow>
           (case backup_file s of
              None \<Rightarrow> False
            | Some b \<Rightarrow>
                returns env (trace s @ [XapiOp d (load_cmd b)]) \<and>
                ssh_opens env (trace s @ [XapiOp d (load_cmd b), Sleep 5]) s \<and>
                returns env
                  (trace s @ [XapiOp d (load_cmd b), Sleep 5] @ ssh_events s @ [SshCommit None]))))"

definition flags_kept :: "driver \<Rightarrow> driver \<Rightarrow> bool" where
  "flags_kept s s' = (loaded s' = loaded s \<and> changed s' = changed s)"

definition is_stage :: "operation \<Rightarrow> bool" where
  "is_stage c =
     (case c of LoadReplaceCandidate _ _ \<Rightarrow> True | LoadMergeCandidate _ _ \<Rightarrow> True | _ \<Rightarrow> False)"

definition commit_done :: "env \<Rightarrow> driver \<Rightarrow> operation \<Rightarrow> bool" where
  "commit_done env s c = (case c of CommitConfig m \<Rightarrow> shell_commit_ok env m s | _ \<Rightarrow> False)"

definition discard_done :: "env \<Rightarrow> driver \<Rightarrow> operation \<Rightarrow> bool" where
  "discard_done env s c = (case c of DiscardConfig \<Rightarrow> discard_ok env s | _ \<Rightarrow> False)"

definition rollback_done :: "env \<Rightarrow> driver \<Rightarrow> operation \<Rightarrow> bool" where
  "rollback_done env s c = (case c of Rollback \<Rightarrow> rollback_ok env s | _ \<Rightarrow> False)"

text \<open>
  An operation fails when it raises, and \<open>rollback\<close> also when it had a commit to take
  back and did not succeed: the failure of its shell commit is swallowed, so that it
  returns all the same.
\<close>

definition op_failed :: "env \<Rightarrow> driver \<Rightarrow> operation \<Rightarrow> exn option \<Rightarrow> bool" where
  "op_failed env s c r = (r \<noteq> None \<or> (c = Rollback \<and> changed s \<and> rollback_ok env s = False))"



subsection \<open>Sample devices and sessions\<close>

text \<open>A device that accepts everything, on the 15th of January 2024.\<close>

definition device_ok :: env where
  "device_ok tr =
     (if tr \<noteq> [] \<and> last tr = DateNow then Return ''2024-01-15'' else Return ''success'')"

text \<open>A device that refuses the first lock command.\<close>

definition config_lock_held :: env where
  "config_lock_held tr =
     (if length tr = 1 then Raise (PanXapiError ''config is locked'') else device_ok tr)"

text \<open>A device that grants the first lock command and refuses the second.\<close>

definition commit_lock_held :: env where
  "commit_lock_held tr =
     (if length tr = 2 then Raise (PanXapiError ''commit is locked'') else device_ok tr)"

text \<open>
  A device that accepts everything up to the eleventh call of the session, which it
  refuses: in the run below that call is the first lock command after the commit.
\<close>

definition relock_refused :: env where
  "relock_refused tr =
     (if length tr = 11 then Raise (PanXapiError ''config is locked'') else device_ok tr)"


definition rollback_commit_refused :: env where
  "rollback_commit_refused tr =
     (if tr \<noteq> [] \<and> last tr = SshCommit None then Raise (OtherError ''commit failed'')
      else device_ok tr)"




definition sample_lock :: lock_obj where
  "sample_lock = PANOSLock 0 ''NAPALM-managed-lock''"


definition locking_session :: driver where
  "locking_session = init ''fw'' ''key'' True ''NAPALM-managed-lock''"


definition staged_session :: driver where
  "staged_session =
     run relock_refused locking_session [Open, LoadReplaceCandidate (Some ''new.xml'') None]"

definition idle_session :: driver where
  "idle_session = run device_ok locking_session [Open]"

definition ready_session :: driver where
  "ready_session =
     run device_ok locking_session [Open, LoadReplaceCandidate (Some ''new.xml'') None]"


definition committed_session :: driver where
  "committed_session =
     run device_ok locking_session
       [Open, LoadReplaceCandidate (Some ''new.xml'') None, CommitConfig ''push'']"

section \<open>Auxiliary facts\<close>

lemma then_do_Inl [simp]: "then_do (Inl x, s) f = (Inl x, s)"
  by (simp add: then_do_def)

lemma then_do_Inr [simp]: "then_do (Inr v, s) f = f v s"
  by (simp add: then_do_def)

lemma take_locks_raise:
  "env (tr @ [take_lock_event l t]) = Raise x \<Longrightarrow>
   take_locks env l (t # ts) tr =
     (Inl (case x of PanXapiError e \<Rightarrow> LockError (''Failed to aquire '' @ t @ ''-lock: '' @ e) | _ \<Rightarrow> x),
      tr @ [take_lock_event l t])"
  by (cases x) (simp_all add: take_lock_event_def)

lemma take_locks_return:
  "env (tr @ [take_lock_event l t]) = Return v \<Longrightarrow>
   take_locks env l (t # ts) tr = take_locks env l ts (tr @ [take_lock_event l t])"
  by (simp add: take_lock_event_def)

lemma take_release_differ:
  "t \<in> set LOCK_TYPES \<Longrightarrow> t' \<in> set LOCK_TYPES \<Longrightarrow> take_lock_event l t \<noteq> release_lock_event l t'"
  by (auto simp: LOCK_TYPES_def take_lock_event_def release_lock_event_def TAKE_LOCK_API_CMD_def RELEASE_LOCK_API_CMD_def)

lemma lock_unlocked_cases:
  assumes "locked l = False"
  shows "lock env l tr =
    (case env (tr @ [take_lock_event l ''config'']) of
       Raise x \<Rightarrow> (Inl (case x of PanXapiError e \<Rightarrow> LockError (''Failed to aquire config-lock: '' @ e) | _ \<Rightarrow> x), l, tr @ [take_lock_event l ''config''])
     | Return _ \<Rightarrow>
        (case env (tr @ [take_lock_event l ''config'', take_lock_event l ''commit'']) of
           Raise x \<Rightarrow> (Inl (case x of PanXapiError e \<Rightarrow> LockError (''Failed to aquire commit-lock: '' @ e) | _ \<Rightarrow> x), l, tr @ [take_lock_event l ''config'', take_lock_event l ''commit''])
         | Return _ \<Rightarrow> (Inr (), l\<lparr>locked := True\<rparr>, tr @ [take_lock_event l ''config'', take_lock_event l ''commit''])))"
proof (cases "env (tr @ [take_lock_event l ''config''])")
  case (Raise x)
  with assms show ?thesis
    by (cases x) (simp_all add: lock_def LOCK_TYPES_def take_locks_raise del: take_locks.simps(2))
next
  case c1: (Return v)
  show ?thesis
  proof (cases "env ((tr @ [take_lock_event l ''config'']) @ [take_lock_event l ''commit''])")
    case (Raise x)
    with assms c1 show ?thesis
      by (cases x) (simp_all add: lock_def LOCK_TYPES_def take_locks_raise take_locks_return del: take_locks.simps(2))
  next
    case (Return w)
    with assms c1 show ?thesis
      by (simp add: lock_def LOCK_TYPES_def take_locks_return del: take_locks.simps(2))
  qed
qed

lemma on_lock_flags: "on_lock m l s = (r, s') \<Longrightarrow> flags_kept s s'"
  by (auto simp: on_lock_def flags_kept_def split: prod.splits)

lemma open_flags: "open env s = (r, s') \<Longrightarrow> flags_kept s s'"
  by (auto simp: open_def xcall_def Let_def flags_kept_def dest!: on_lock_flags split: reply.splits if_splits option.splits)

lemma close_flags: "close env s = (r, s') \<Longrightarrow> flags_kept s s'"
  by (auto simp: close_def xcall_def Let_def then_do_def flags_kept_def dest!: on_lock_flags split: reply.splits if_splits option.splits prod.splits sum.splits)

lemma is_alive_flags: "is_alive env s = (r, s') \<Longrightarrow> flags_kept s s'"
  by (auto simp: is_alive_def xcall_def Let_def flags_kept_def split: reply.splits if_splits option.splits)

lemma get_config_flags: "get_config env retrieve full sanitized s = (r, s') \<Longrightarrow> flags_kept s s'"
  by (auto simp: get_config_def get_running_def get_candidate_def xcall_def Let_def flags_kept_def split: reply.splits if_splits option.splits)

lemma compare_config_flags: "compare_config env s = (r, s') \<Longrightarrow> flags_kept s s'"
  by (auto simp: compare_config_def ensure_ssh_def open_ssh_def xcall_def Let_def flags_kept_def split: reply.splits if_splits option.splits)

lemma save_backup_flags: "save_backup env s = (r, s') \<Longrightarrow> flags_kept s s'"
  by (auto simp: save_backup_def device_op_def xcall_def Let_def flags_kept_def split: reply.splits if_splits option.splits)

lemma import_file_flags: "import_file env f s = (r, s') \<Longrightarrow> flags_kept s s'"
  by (auto simp: import_file_def device_op_def xcall_def Let_def flags_kept_def split: reply.splits if_splits option.splits)

lemma load_replace_candidate_flags:
  assumes "load_replace_candidate env filename config s = (r, s')"
  shows "changed s' = changed s \<and> (case r of Inl _ \<Rightarrow> loaded s' = loaded s | Inr _ \<Rightarrow> loaded s')"
  using assms
  by (auto simp: load_replace_candidate_def then_do_def device_op_def xcall_def Let_def flags_kept_def
      dest!: save_backup_flags import_file_flags
      split: reply.splits if_splits option.splits prod.splits sum.splits)

lemma ensure_ssh_flags:
  "ensure_ssh env s = (r, s') \<Longrightarrow>
     flags_kept s s' \<and> merge_config s' = merge_config s \<and>
     session_config_lock s' = session_config_lock s \<and> lock_object s' = lock_object s \<and>
     device s' = device s \<and> backup_file s' = backup_file s"
  by (auto simp: ensure_ssh_def open_ssh_def xcall_def Let_def flags_kept_def split: reply.splits if_splits)

lemma get_file_content_flags: "get_file_content env f s = (r, s') \<Longrightarrow> flags_kept s s'"
  by (auto simp: get_file_content_def xcall_def Let_def flags_kept_def split: reply.splits exn.splits)

lemma send_merge_commands_flags:
  assumes "send_merge_commands env config fc s = (r, s')"
  shows "changed s' = changed s \<and> (case r of Inl _ \<Rightarrow> loaded s' = loaded s | Inr _ \<Rightarrow> loaded s')"
  using assms
  by (auto simp: send_merge_commands_def then_do_def xcall_def Let_def flags_kept_def
      dest!: save_backup_flags ensure_ssh_flags
      split: reply.splits if_splits option.splits prod.splits sum.splits)

lemma load_merge_candidate_flags:
  assumes "load_merge_candidate env filename config s = (r, s')"
  shows "changed s' = changed s \<and> (case r of Inl _ \<Rightarrow> loaded s' = loaded s | Inr _ \<Rightarrow> loaded s')"
  using assms
  by (auto simp: load_merge_candidate_def then_do_def flags_kept_def
      dest!: get_file_content_flags send_merge_commands_flags
      split: if_splits prod.splits sum.splits)

lemma outcome_cases:
  "outcome m = (r, s') \<Longrightarrow> (\<exists>x. m = (Inl x, s') \<and> r = Some x) \<or> (\<exists>v. m = (Inr v, s') \<and> r = None)"
  by (auto simp: outcome_def split: prod.splits sum.splits)

lemma ssh_connection_already: "ssh_connection s \<Longrightarrow> s\<lparr>ssh_connection := True\<rparr> = s"
  by (cases s) simp

lemma ensure_ssh_connected: "ssh_connection s \<Longrightarrow> ensure_ssh env s = (Inr (), s)"
  by (simp add: ensure_ssh_def)

lemma ensure_ssh_raise:
  "ssh_connection s = False \<Longrightarrow> env (trace s @ [SshConnect]) = Raise x \<Longrightarrow>
   ensure_ssh env s = (Inl x, s\<lparr>trace := trace s @ [SshConnect]\<rparr>)"
  by (simp add: ensure_ssh_def open_ssh_def xcall_def)

lemma ensure_ssh_return:
  "ssh_connection s = False \<Longrightarrow> env (trace s @ [SshConnect]) = Return v \<Longrightarrow>
   ensure_ssh env s = (Inr (), s\<lparr>trace := trace s @ [SshConnect], ssh_connection := True\<rparr>)"
  by (simp add: ensure_ssh_def open_ssh_def xcall_def)

lemma ensure_ssh_opens:
  "ssh_opens env (trace s) s \<Longrightarrow>
   ensure_ssh env s = (Inr (), s\<lparr>trace := trace s @ ssh_events s, ssh_connection := True\<rparr>)"
proof (cases "ssh_connection s")
  case True
  then show ?thesis
    by (simp add: ensure_ssh_connected ssh_events_def ssh_connection_already)
next
  case False
  assume "ssh_opens env (trace s) s"
  with False obtain v where "env (trace s @ [SshConnect]) = Return v"
    by (auto simp: ssh_opens_def returns_def split: reply.splits)
  with False show ?thesis
    by (simp add: ensure_ssh_return ssh_events_def)
qed

lemma ensure_ssh_fails:
  "ssh_opens env (trace s) s = False \<Longrightarrow>
   \<exists>x. ensure_ssh env s = (Inl x, s\<lparr>trace := trace s @ [SshConnect]\<rparr>)"
  by (cases "env (trace s @ [SshConnect])")
     (auto simp: ssh_opens_def returns_def ensure_ssh_raise)

lemma commit_config_not_loaded:
  "loaded s = False \<Longrightarrow>
   commit_config env m s = (Inl (ReplaceConfigException ''No config loaded.''), s)"
  by (simp add: commit_config_def)

lemma commit_config_no_shell:
  "loaded s \<Longrightarrow> ssh_opens env (trace s) s = False \<Longrightarrow>
   \<exists>x. commit_config env m s = (Inl x, s\<lparr>trace := trace s @ [SshConnect]\<rparr>)"
  using ensure_ssh_fails [of env s] by (auto simp: commit_config_def)

lemma commit_config_commit_raises:
  "loaded s \<Longrightarrow> ssh_opens env (trace s) s \<Longrightarrow>
   env (trace s @ ssh_events s @ [SshCommit (Some m)]) = Raise x \<Longrightarrow>
   commit_config env m s =
     (Inl (if merge_config s then MergeConfigException ''Error while commiting config''
           else ReplaceConfigException ''Error while commiting config''),
      s\<lparr>trace := trace s @ ssh_events s @ [SshCommit (Some m)], ssh_connection := True\<rparr>)"
  by (simp add: commit_config_def ensure_ssh_opens xcall_def)

lemma commit_config_commit_returns:
  "loaded s \<Longrightarrow> ssh_opens env (trace s) s \<Longrightarrow>
   env (trace s @ ssh_events s @ [SshCommit (Some m)]) = Return v \<Longrightarrow>
   commit_config env m s =
     (if session_config_lock s then
        (case lock_object s of
           None \<Rightarrow>
             (Inl (AttributeError ''NoneType object has no attribute locked''),
              s\<lparr>ssh_connection := True,
                trace := trace s @ ssh_events s @ [SshCommit (Some m), Sleep 3],
                loaded := False, changed := True\<rparr>)
         | Some l \<Rightarrow>
             on_lock (lock env) (l\<lparr>locked := False\<rparr>)
               (s\<lparr>ssh_connection := True,
                trace := trace s @ ssh_events s @ [SshCommit (Some m), Sleep 3],
                loaded := False, changed := True\<rparr>))
      else
        (Inr (),
         s\<lparr>ssh_connection := True,
                trace := trace s @ ssh_events s @ [SshCommit (Some m), Sleep 3],
                loaded := False, changed := True\<rparr>))"
  by (simp add: commit_config_def ensure_ssh_opens xcall_def sleep_def split: option.splits)

lemma on_lock_unlocked_result:
  "on_lock (lock env) (l\<lparr>locked := False\<rparr>) s3 = (r, s') \<Longrightarrow>
   loaded s' = loaded s3 \<and> changed s' = changed s3"
  by (auto simp: on_lock_def split: prod.splits)

lemma commit_config_flags:
  assumes "commit_config env m s = (r, s')"
  shows "if shell_commit_ok env m s
         then loaded s' = False \<and> changed s' \<and> (r = Inr () \<or> session_config_lock s)
         else flags_kept s s' \<and> r \<noteq> Inr ()"
proof (cases "loaded s")
  case False
  with assms show ?thesis
    by (auto simp: commit_config_not_loaded shell_commit_ok_def flags_kept_def)
next
  case l: True
  show ?thesis
  proof (cases "ssh_opens env (trace s) s")
    case False
    with l assms commit_config_no_shell [of s env m] show ?thesis
      by (auto simp: shell_commit_ok_def flags_kept_def)
  next
    case o: True
    show ?thesis
    proof (cases "env (trace s @ ssh_events s @ [SshCommit (Some m)])")
      case (Raise x)
      with l o assms show ?thesis
        by (auto simp: commit_config_commit_raises shell_commit_ok_def returns_def flags_kept_def)
    next
      case (Return v)
      then have ok: "shell_commit_ok env m s"
        using l o by (simp add: shell_commit_ok_def returns_def)
      from l o Return assms show ?thesis
        by (auto simp: ok commit_config_commit_returns dest!: on_lock_unlocked_result
            split: if_splits option.splits)
    qed
  qed
qed

lemma ssh_opens_trace [simp]: "ssh_opens env tr (s\<lparr>trace := t\<rparr>) = ssh_opens env tr s"
  by (simp add: ssh_opens_def)

lemma ssh_events_trace [simp]: "ssh_events (s\<lparr>trace := t\<rparr>) = ssh_events s"
  by (simp add: ssh_events_def)

lemma discard_config_idle: "loaded s = False \<Longrightarrow> discard_config env s = (Inr (), s)"
  by (simp add: discard_config_def)

lemma discard_config_flags:
  assumes "discard_config env s = (r, s')"
  shows "changed s' = changed s \<and>
     (if discard_ok env s then loaded s' = False \<and> r = Inr ()
      else loaded s' = loaded s \<and> (loaded s \<longrightarrow> r \<noteq> Inr ()))"
proof (cases "loaded s")
  case False
  with assms show ?thesis
    by (auto simp: discard_config_idle discard_ok_def)
next
  case l: True
  show ?thesis
  proof (cases "backup_file s")
    case None
    with l assms show ?thesis
      by (cases "device s") (auto simp: discard_config_def load_backup_def discard_ok_def)
  next
    case b: (Some b)
    show ?thesis
    proof (cases "device s")
      case None
      with l b assms show ?thesis
        by (auto simp: discard_config_def load_backup_def device_op_def discard_ok_def)
    next
      case d: (Some d)
      show ?thesis
      proof (cases "env (trace s @ [XapiOp d (load_cmd b)])")
        case (Raise x)
        with l b d assms show ?thesis
          by (auto simp: discard_config_def load_backup_def device_op_def xcall_def discard_ok_def)
      next
        case (Return st)
        with l b d assms show ?thesis
          by (auto simp: discard_config_def load_backup_def device_op_def xcall_def discard_ok_def
              split: if_splits)
      qed
    qed
  qed
qed

lemma rollback_idle: "changed s = False \<Longrightarrow> rollback env s = (Inr (), s)"
  by (simp add: rollback_def)

lemma rollback_commit_raises:
  assumes "changed s" and "device s = Some d" and "backup_file s = Some b"
    and "env (trace s @ [XapiOp d (load_cmd b)]) = Return st"
    and "ssh_opens env (trace s @ [XapiOp d (load_cmd b), Sleep 5]) s"
    and "env (trace s @ [XapiOp d (load_cmd b), Sleep 5] @ ssh_events s @ [SshCommit None]) = Raise x"
  shows "fst (rollback env s) = Inr () \<and>
     loaded (snd (rollback env s)) = loaded s \<and>
     changed (snd (rollback env s)) = changed s \<and>
     merge_config (snd (rollback env s)) = merge_config s \<and>
     trace (snd (rollback env s)) =
       trace s @ [XapiOp d (load_cmd b), Sleep 5] @ ssh_events s @ [SshCommit None]"
  using assms
  by (simp add: rollback_def load_backup_def device_op_def xcall_def sleep_def ensure_ssh_opens)

lemma rollback_commit_returns:
  assumes "changed s" and "device s = Some d" and "backup_file s = Some b"
    and "env (trace s @ [XapiOp d (load_cmd b)]) = Return st"
    and "ssh_opens env (trace s @ [XapiOp d (load_cmd b), Sleep 5]) s"
    and "env (trace s @ [XapiOp d (load_cmd b), Sleep 5] @ ssh_events s @ [SshCommit None]) = Return v"
  shows "fst (rollback env s) = Inr () \<and>
     loaded (snd (rollback env s)) = False \<and>
     changed (snd (rollback env s)) = False \<and>
     merge_config (snd (rollback env s)) = False \<and>
     trace (snd (rollback env s)) =
       trace s @ [XapiOp d (load_cmd b), Sleep 5] @ ssh_events s @ [SshCommit None]"
  using assms
  by (simp add: rollback_def load_backup_def device_op_def xcall_def sleep_def ensure_ssh_opens)

lemma rollback_flags:
  assumes "rollback env s = (r, s')"
  shows "if rollback_ok env s then loaded s' = False \<and> changed s' = False \<and> r = Inr ()
         else flags_kept s s'"
proof (cases "changed s")
  case False
  with assms show ?thesis
    by (auto simp: rollback_idle rollback_ok_def flags_kept_def)
next
  case c: True
  show ?thesis
  proof (cases "backup_file s")
    case None
    with c assms show ?thesis
      by (cases "device s") (auto simp: rollback_def load_backup_def rollback_ok_def flags_kept_def)
  next
    case b: (Some b)
    show ?thesis
    proof (cases "device s")
      case None
      with c b assms show ?thesis
        by (auto simp: rollback_def load_backup_def device_op_def rollback_ok_def flags_kept_def)
    next
      case d: (Some d)
      show ?thesis
      proof (cases "env (trace s @ [XapiOp d (load_cmd b)])")
        case (Raise x)
        with c b d assms show ?thesis
          by (auto simp: rollback_def load_backup_def device_op_def xcall_def rollback_ok_def
              returns_def flags_kept_def)
      next
        case ld: (Return st)
        show ?thesis
        proof (cases "ssh_opens env (trace s @ [XapiOp d (load_cmd b), Sleep 5]) s")
          case False
          with ensure_ssh_fails [of env "sleep 5 (s\<lparr>trace := trace s @ [XapiOp d (load_cmd b)]\<rparr>)"]
          obtain x where "ensure_ssh env (sleep 5 (s\<lparr>trace := trace s @ [XapiOp d (load_cmd b)]\<rparr>)) =
              (Inl x, (sleep 5 (s\<lparr>trace := trace s @ [XapiOp d (load_cmd b)]\<rparr>))
                 \<lparr>trace := trace (sleep 5 (s\<lparr>trace := trace s @ [XapiOp d (load_cmd b)]\<rparr>)) @ [SshConnect]\<rparr>)"
            by (auto simp: sleep_def)
          with c b d ld False assms show ?thesis
            by (auto simp: rollback_def load_backup_def device_op_def xcall_def rollback_ok_def
                sleep_def flags_kept_def)
        next
          case o: True
          show ?thesis
          proof (cases "env (trace s @ [XapiOp d (load_cmd b), Sleep 5] @ ssh_events s @ [SshCommit None])")
            case (Raise x)
            from rollback_commit_raises [OF c d b ld o Raise] assms c b d ld o Raise
            show ?thesis
              by (auto simp: rollback_ok_def returns_def flags_kept_def)
          next
            case (Return v)
            from rollback_commit_returns [OF c d b ld o Return] assms c b d ld o Return
            show ?thesis
              by (auto simp: rollback_ok_def returns_def flags_kept_def)
          qed
        qed
      qed
    qed
  qed
qed


lemma load_cmd_not_save [simp]: "prefix ''<save>'' (load_cmd b) = False"
  by (simp add: load_cmd_def)



















lemma load_replace_candidate_argument_errors:
  "(truthy config \<longrightarrow>
      load_replace_candidate env filename config s =
        (Inl (ReplaceConfigException ''This method requires a config file.''), s)) \<and>
   (truthy config = False \<and> truthy filename = False \<longrightarrow>
      load_replace_candidate env filename config s =
        (Inl (ReplaceConfigException ''This method requires a config file.''), s))"
  by (simp add: load_replace_candidate_def)

lemma load_replace_candidate_upload_error:
  "loaded s \<Longrightarrow> truthy config = False \<Longrightarrow> truthy filename \<Longrightarrow> api_key s \<noteq> [] \<Longrightarrow>
   env (trace s @ [HttpImport (hostname s) (api_key s) (text_of filename)]) = Return ''error'' \<Longrightarrow>
   load_replace_candidate env filename config s =
     (Inl (ReplaceConfigException ''Error while trying to move the config file to the device.''),
      s\<lparr>trace := trace s @ [HttpImport (hostname s) (api_key s) (text_of filename)]\<rparr>)"
  by (simp add: load_replace_candidate_def import_file_def xcall_def)

section \<open>The lock manager\<close>

text \<open>
  Claim C6. \<open>lock()\<close> on a lock object that is not yet locked sends the take-lock
  command for \<open>config\<close> first and for \<open>commit\<close> second. If the device answers the
  \<open>config\<close> command with an API error, \<open>lock()\<close> raises a \<open>LockError\<close> that names
  \<open>config\<close> and carries the cause, and the \<open>commit\<close> command is never sent; if it grants
  \<open>config\<close> and answers \<open>commit\<close> with an API error, the \<open>LockError\<close> names \<open>commit\<close>.
  Whenever \<open>lock()\<close> raises, the lock object is unchanged (its \<open>locked\<close> flag still
  false) and the only commands sent are take-lock commands: no release command of
  either kind.
\<close>

theorem lock_acquisition_failure:
  assumes "locked l = False"
  shows "(env (tr @ [take_lock_event l ''config'']) = Raise (PanXapiError e) \<longrightarrow>
            lock env l tr =
              (Inl (LockError (''Failed to aquire config-lock: '' @ e)), l,
               tr @ [take_lock_event l ''config'']))
       \<and> (env (tr @ [take_lock_event l ''config'']) = Return v \<and>
          env (tr @ [take_lock_event l ''config'', take_lock_event l ''commit'']) = Raise (PanXapiError e) \<longrightarrow>
            lock env l tr =
              (Inl (LockError (''Failed to aquire commit-lock: '' @ e)), l,
               tr @ [take_lock_event l ''config'', take_lock_event l ''commit'']))
       \<and> (env (tr @ [take_lock_event l ''config'']) = Return v \<and>
          env (tr @ [take_lock_event l ''config'', take_lock_event l ''commit'']) = Return w \<longrightarrow>
            lock env l tr =
              (Inr (), l\<lparr>locked := True\<rparr>,
               tr @ [take_lock_event l ''config'', take_lock_event l ''commit'']))
       \<and> (\<forall>x l' tr'. lock env l tr = (Inl x, l', tr') \<longrightarrow>
            l' = l \<and> locked l' = False \<and>
            (tr' = tr @ [take_lock_event l ''config''] \<or>
             tr' = tr @ [take_lock_event l ''config'', take_lock_event l ''commit'']) \<and>
            (\<forall>t \<in> set LOCK_TYPES. release_lock_event l t \<notin> set (drop (length tr) tr')))"
proof (intro conjI impI allI)
  assume "env (tr @ [take_lock_event l ''config'']) = Raise (PanXapiError e)"
  then show "lock env l tr =
      (Inl (LockError (''Failed to aquire config-lock: '' @ e)), l, tr @ [take_lock_event l ''config''])"
    by (simp add: lock_unlocked_cases [OF assms])
next
  assume "env (tr @ [take_lock_event l ''config'']) = Return v \<and>
          env (tr @ [take_lock_event l ''config'', take_lock_event l ''commit'']) = Raise (PanXapiError e)"
  then show "lock env l tr =
      (Inl (LockError (''Failed to aquire commit-lock: '' @ e)), l,
       tr @ [take_lock_event l ''config'', take_lock_event l ''commit''])"
    by (simp add: lock_unlocked_cases [OF assms])
next
  assume "env (tr @ [take_lock_event l ''config'']) = Return v \<and>
          env (tr @ [take_lock_event l ''config'', take_lock_event l ''commit'']) = Return w"
  then show "lock env l tr =
      (Inr (), l\<lparr>locked := True\<rparr>, tr @ [take_lock_event l ''config'', take_lock_event l ''commit''])"
    by (simp add: lock_unlocked_cases [OF assms])
next
  fix x l' tr'
  assume raised: "lock env l tr = (Inl x, l', tr')"
  then have shape: "l' = l \<and>
      (tr' = tr @ [take_lock_event l ''config''] \<or>
       tr' = tr @ [take_lock_event l ''config'', take_lock_event l ''commit''])"
    by (auto simp: lock_unlocked_cases [OF assms] split: reply.splits)
  then show "l' = l" by simp
  from shape assms show "locked l' = False" by simp
  from shape show "tr' = tr @ [take_lock_event l ''config''] \<or>
      tr' = tr @ [take_lock_event l ''config'', take_lock_event l ''commit'']" by simp
  have cfg: "''config'' \<in> set LOCK_TYPES" and cmt: "''commit'' \<in> set LOCK_TYPES"
    by (simp_all add: LOCK_TYPES_def)
  show "\<forall>t \<in> set LOCK_TYPES. release_lock_event l t \<notin> set (drop (length tr) tr')"
  proof
    fix t assume t: "t \<in> set LOCK_TYPES"
    from take_release_differ [OF cfg t, of l] take_release_differ [OF cmt t, of l] shape
    show "release_lock_event l t \<notin> set (drop (length tr) tr')"
      by auto
  qed
qed

theorem lock_acquisition_failure_witness:
  "lock config_lock_held sample_lock [] =
     (Inl (LockError ''Failed to aquire config-lock: config is locked''), sample_lock,
      [take_lock_event sample_lock ''config''])
   \<and> lock commit_lock_held sample_lock [] =
     (Inl (LockError ''Failed to aquire commit-lock: commit is locked''), sample_lock,
      [take_lock_event sample_lock ''config'', take_lock_event sample_lock ''commit''])
   \<and> lock device_ok sample_lock [] =
     (Inr (), sample_lock\<lparr>locked := True\<rparr>,
      [take_lock_event sample_lock ''config'', take_lock_event sample_lock ''commit''])"
proof -
  have unlocked: "locked sample_lock = False"
    by (simp add: sample_lock_def PANOSLock_def)
  have a: "config_lock_held ([] @ [take_lock_event sample_lock ''config'']) =
      Raise (PanXapiError ''config is locked'')"
    by (simp add: config_lock_held_def)
  have b: "commit_lock_held ([] @ [take_lock_event sample_lock ''config'']) = Return ''success'' \<and>
      commit_lock_held ([] @ [take_lock_event sample_lock ''config'', take_lock_event sample_lock ''commit'']) =
      Raise (PanXapiError ''commit is locked'')"
    by (simp add: commit_lock_held_def device_ok_def take_lock_event_def)
  have c: "device_ok ([] @ [take_lock_event sample_lock ''config'']) = Return ''success'' \<and>
      device_ok ([] @ [take_lock_event sample_lock ''config'', take_lock_event sample_lock ''commit'']) =
      Return ''success''"
    by (simp add: device_ok_def take_lock_event_def)
  from lock_acquisition_failure [OF unlocked, where env = config_lock_held and tr = "[]"
      and e = "''config is locked''"] a
  have "lock config_lock_held sample_lock [] =
     (Inl (LockError ''Failed to aquire config-lock: config is locked''), sample_lock,
      [take_lock_event sample_lock ''config''])"
    by simp
  moreover
  from lock_acquisition_failure [OF unlocked, where env = commit_lock_held and tr = "[]"
      and v = "''success''" and e = "''commit is locked''"] b
  have "lock commit_lock_held sample_lock [] =
     (Inl (LockError ''Failed to aquire commit-lock: commit is locked''), sample_lock,
      [take_lock_event sample_lock ''config'', take_lock_event sample_lock ''commit''])"
    by simp
  moreover
  from lock_acquisition_failure [OF unlocked, where env = device_ok and tr = "[]"
      and v = "''success''" and w = "''success''"] c
  have "lock device_ok sample_lock [] =
     (Inr (), sample_lock\<lparr>locked := True\<rparr>,
      [take_lock_event sample_lock ''config'', take_lock_event sample_lock ''commit''])"
    by simp
  ultimately show ?thesis by simp
qed

text \<open>
  Claim C7. \<open>lock()\<close> on a lock object whose flag is set sends nothing and returns;
  \<open>unlock()\<close> on one whose flag is not set sends nothing and returns. So when a first
  \<open>lock()\<close> on an unlocked object has returned, having sent the two lock commands, a
  second \<open>lock()\<close> right after it returns with the lock object and the trace as the
  first call left them: of two calls in a row, the device sees the commands once.
\<close>

theorem lock_unlock_idempotent:
  "(locked l \<longrightarrow> lock env l tr = (Inr (), l, tr)) \<and>
   (locked l = False \<longrightarrow> unlock env l tr = (Inr (), l, tr)) \<and>
   (locked l = False \<and> lock env l tr = (Inr (), l1, tr1) \<longrightarrow>
      tr1 = tr @ [take_lock_event l ''config'', take_lock_event l ''commit''] \<and>
      lock env l1 tr1 = (Inr (), l1, tr1))"
proof (intro conjI impI)
  assume "locked l"
  then show "lock env l tr = (Inr (), l, tr)"
    by (simp add: lock_def)
next
  assume "locked l = False"
  then show "unlock env l tr = (Inr (), l, tr)"
    by (simp add: unlock_def)
next
  assume first: "locked l = False \<and> lock env l tr = (Inr (), l1, tr1)"
  then have "l1 = l\<lparr>locked := True\<rparr> \<and>
      tr1 = tr @ [take_lock_event l ''config'', take_lock_event l ''commit'']"
    by (auto simp: lock_unlocked_cases split: reply.splits)
  then show "tr1 = tr @ [take_lock_event l ''config'', take_lock_event l ''commit'']"
    and "lock env l1 tr1 = (Inr (), l1, tr1)"
    by (simp_all add: lock_def)
qed

theorem lock_unlock_idempotent_witness:
  "unlock device_ok sample_lock [] = (Inr (), sample_lock, [])
   \<and> lock device_ok (sample_lock\<lparr>locked := True\<rparr>)
       [take_lock_event sample_lock ''config'', take_lock_event sample_lock ''commit''] =
     (Inr (), sample_lock\<lparr>locked := True\<rparr>,
      [take_lock_event sample_lock ''config'', take_lock_event sample_lock ''commit''])"
proof -
  have unlocked: "locked sample_lock = False"
    by (simp add: sample_lock_def PANOSLock_def)
  have first: "lock device_ok sample_lock [] =
     (Inr (), sample_lock\<lparr>locked := True\<rparr>,
      [take_lock_event sample_lock ''config'', take_lock_event sample_lock ''commit''])"
    by (simp add: lock_unlocked_cases [OF unlocked] device_ok_def take_lock_event_def)
  from lock_unlock_idempotent [where l = sample_lock and env = device_ok and tr = "[]"
      and ?l1.0 = "sample_lock\<lparr>locked := True\<rparr>"
      and ?tr1.0 = "[take_lock_event sample_lock ''config'', take_lock_event sample_lock ''commit'']"]
    unlocked first
  show ?thesis by simp
qed

section \<open>The transaction flags\<close>

text \<open>
  Claim C1, as the code has it. \<open>loaded\<close> and \<open>changed\<close> are false in a new driver.
  For one public operation run from any state of a session, whatever the device does,
  the two flags afterwards are given by the state table:
  \<open>loaded\<close> is true after a stage operation that returned; it is false after a
  \<open>commit_config\<close> whose commit succeeded, after a \<open>discard_config\<close> that succeeded and
  after a \<open>rollback\<close> that succeeded; in every other case it is what it was.
  \<open>changed\<close> is true after a \<open>commit_config\<close> whose commit succeeded, false after a
  \<open>rollback\<close> that succeeded, and what it was in every other case. So each flag turns
  only in these operations, and each of them does turn it.
  A \<open>discard_config\<close> or \<open>rollback\<close> that succeeded returns; a \<open>commit_config\<close> whose
  commit did not succeed raises, and so does a \<open>discard_config\<close> on a loaded candidate
  that did not succeed.
  An operation that fails (it raises, or it is a \<open>rollback\<close> with a commit to take back
  that did not succeed, whose error is swallowed) leaves both flags as they were, with
  one exception: a \<open>commit_config\<close> under session locking whose commit succeeded and
  which raised afterwards, when taking the locks again.
\<close>

theorem transaction_flags_step:
  "loaded (init host key cl cm) = False \<and> changed (init host key cl cm) = False \<and>
   (step env s c = (r, s') \<longrightarrow>
      loaded s' =
        (if is_stage c \<and> r = None then True
         else if commit_done env s c \<or> discard_done env s c \<or> rollback_done env s c then False
         else loaded s) \<and>
      changed s' =
        (if commit_done env s c then True
         else if rollback_done env s c then False
         else changed s) \<and>
      (discard_done env s c \<or> rollback_done env s c \<longrightarrow> r = None) \<and>
      (commit_done env s c \<and> r \<noteq> None \<longrightarrow> session_config_lock s) \<and>
      ((\<exists>m. c = CommitConfig m) \<and> commit_done env s c = False \<longrightarrow> r \<noteq> None) \<and>
      (c = DiscardConfig \<and> loaded s \<and> discard_done env s c = False \<longrightarrow> r \<noteq> None) \<and>
      (op_failed env s c r \<longrightarrow>
         flags_kept s s' \<or> (commit_done env s c \<and> session_config_lock s \<and> r \<noteq> None)))"
proof (intro conjI impI)
  show "loaded (init host key cl cm) = False" and "changed (init host key cl cm) = False"
    by (simp_all add: init_def)
next
  assume st: "step env s c = (r, s')"
  have all: "loaded s' =
        (if is_stage c \<and> r = None then True
         else if commit_done env s c \<or> discard_done env s c \<or> rollback_done env s c then False
         else loaded s) \<and>
      changed s' =
        (if commit_done env s c then True
         else if rollback_done env s c then False
         else changed s) \<and>
      (discard_done env s c \<or> rollback_done env s c \<longrightarrow> r = None) \<and>
      (commit_done env s c \<and> r \<noteq> None \<longrightarrow> session_config_lock s) \<and>
      ((\<exists>m. c = CommitConfig m) \<and> commit_done env s c = False \<longrightarrow> r \<noteq> None) \<and>
      (c = DiscardConfig \<and> loaded s \<and> discard_done env s c = False \<longrightarrow> r \<noteq> None) \<and>
      (op_failed env s c r \<longrightarrow>
         flags_kept s s' \<or> (commit_done env s c \<and> session_config_lock s \<and> r \<noteq> None))"
  proof (cases c)
    case Open
    with st show ?thesis
      by (auto simp: is_stage_def commit_done_def discard_done_def rollback_done_def op_failed_def
          flags_kept_def dest!: outcome_cases open_flags)
  next
    case Close
    with st show ?thesis
      by (auto simp: is_stage_def commit_done_def discard_done_def rollback_done_def op_failed_def
          flags_kept_def dest!: outcome_cases close_flags)
  next
    case IsAlive
    with st show ?thesis
      by (auto simp: is_stage_def commit_done_def discard_done_def rollback_done_def op_failed_def
          flags_kept_def dest!: outcome_cases is_alive_flags)
  next
    case (GetConfig x1 x2 x3)
    with st show ?thesis
      by (auto simp: is_stage_def commit_done_def discard_done_def rollback_done_def op_failed_def
          flags_kept_def dest!: outcome_cases get_config_flags)
  next
    case (LoadReplaceCandidate f cfg)
    with st show ?thesis
      by (auto simp: is_stage_def commit_done_def discard_done_def rollback_done_def op_failed_def
          flags_kept_def dest!: outcome_cases load_replace_candidate_flags)
  next
    case (LoadMergeCandidate f cfg)
    with st show ?thesis
      by (auto simp: is_stage_def commit_done_def discard_done_def rollback_done_def op_failed_def
          flags_kept_def dest!: outcome_cases load_merge_candidate_flags)
  next
    case CompareConfig
    with st show ?thesis
      by (auto simp: is_stage_def commit_done_def discard_done_def rollback_done_def op_failed_def
          flags_kept_def dest!: outcome_cases compare_config_flags)
  next
    case (CommitConfig m)
    with st show ?thesis
      by (auto simp: is_stage_def commit_done_def discard_done_def rollback_done_def op_failed_def
          flags_kept_def dest!: outcome_cases commit_config_flags split: if_splits)
  next
    case DiscardConfig
    with st show ?thesis
      by (auto simp: is_stage_def commit_done_def discard_done_def rollback_done_def op_failed_def
          flags_kept_def dest!: outcome_cases discard_config_flags split: if_splits)
  next
    case Rollback
    with st show ?thesis
      by (auto simp: is_stage_def commit_done_def discard_done_def rollback_done_def op_failed_def
          flags_kept_def dest!: outcome_cases rollback_flags split: if_splits)
  qed
  from all show "loaded s' =
        (if is_stage c \<and> r = None then True
         else if commit_done env s c \<or> discard_done env s c \<or> rollback_done env s c then False
         else loaded s)" by blast
  from all show "changed s' =
        (if commit_done env s c then True
         else if rollback_done env s c then False
         else changed s)" by blast
  from all show "discard_done env s c \<or> rollback_done env s c \<Longrightarrow> r = None" by blast
  from all show "commit_done env s c \<and> r \<noteq> None \<Longrightarrow> session_config_lock s" by blast
  from all show "(\<exists>m. c = CommitConfig m) \<and> commit_done env s c = False \<Longrightarrow> r \<noteq> None" by blast
  from all show "c = DiscardConfig \<and> loaded s \<and> discard_done env s c = False \<Longrightarrow> r \<noteq> None" by blast
  from all show "op_failed env s c r \<Longrightarrow>
         flags_kept s s' \<or> (commit_done env s c \<and> session_config_lock s \<and> r \<noteq> None)" by blast
qed

theorem transaction_flags_step_witness:
  "loaded idle_session = False
   \<and> step device_ok idle_session (LoadReplaceCandidate (Some ''new.xml'') None) = (None, ready_session)
   \<and> loaded ready_session
   \<and> commit_done device_ok ready_session (CommitConfig ''push'')
   \<and> loaded (snd (step device_ok ready_session (CommitConfig ''push''))) = False
   \<and> changed (snd (step device_ok ready_session (CommitConfig ''push'')))
   \<and> discard_done device_ok ready_session DiscardConfig
   \<and> loaded (snd (step device_ok ready_session DiscardConfig)) = False
   \<and> changed committed_session
   \<and> rollback_done device_ok committed_session Rollback
   \<and> changed (snd (step device_ok committed_session Rollback)) = False
   \<and> op_failed rollback_commit_refused committed_session Rollback None
   \<and> fst (step rollback_commit_refused committed_session Rollback) = None
   \<and> changed (snd (step rollback_commit_refused committed_session Rollback))"
proof -
  have st: "step device_ok idle_session (LoadReplaceCandidate (Some ''new.xml'') None) =
      (None, ready_session)"
    by code_simp
  have stage: "is_stage (LoadReplaceCandidate (Some ''new.xml'') None)"
    by (simp add: is_stage_def)
  have idle: "loaded idle_session = False"
    by code_simp
  from transaction_flags_step [where env = device_ok and s = idle_session
      and c = "LoadReplaceCandidate (Some ''new.xml'') None" and r = None and s' = ready_session]
    st stage
  have a: "loaded ready_session"
    by simp
  have cd: "commit_done device_ok ready_session (CommitConfig ''push'')"
    by code_simp
  from transaction_flags_step [where env = device_ok and s = ready_session
      and c = "CommitConfig ''push''"
      and r = "fst (step device_ok ready_session (CommitConfig ''push''))"
      and s' = "snd (step device_ok ready_session (CommitConfig ''push''))"] cd
  have b: "loaded (snd (step device_ok ready_session (CommitConfig ''push''))) = False
      \<and> changed (snd (step device_ok ready_session (CommitConfig ''push'')))"
    by (simp add: is_stage_def)
  have dd: "discard_done device_ok ready_session DiscardConfig"
    by code_simp
  from transaction_flags_step [where env = device_ok and s = ready_session
      and c = DiscardConfig
      and r = "fst (step device_ok ready_session DiscardConfig)"
      and s' = "snd (step device_ok ready_session DiscardConfig)"] dd
  have c: "loaded (snd (step device_ok ready_session DiscardConfig)) = False"
    by (simp add: is_stage_def)
  have ch: "changed committed_session"
    by code_simp
  have rd: "rollback_done device_ok committed_session Rollback"
    by code_simp
  have ncd: "commit_done device_ok committed_session Rollback = False"
    "commit_done rollback_commit_refused committed_session Rollback = False"
    by (simp_all add: commit_done_def)
  from transaction_flags_step [where env = device_ok and s = committed_session
      and c = Rollback
      and r = "fst (step device_ok committed_session Rollback)"
      and s' = "snd (step device_ok committed_session Rollback)"] rd ncd
  have d: "changed (snd (step device_ok committed_session Rollback)) = False"
    by simp
  have nrd: "rollback_done rollback_commit_refused committed_session Rollback = False"
    by code_simp
  have fl: "op_failed rollback_commit_refused committed_session Rollback None"
    by code_simp
  have rn: "fst (step rollback_commit_refused committed_session Rollback) = None"
    by code_simp
  from transaction_flags_step [where env = rollback_commit_refused and s = committed_session
      and c = Rollback
      and r = "fst (step rollback_commit_refused committed_session Rollback)"
      and s' = "snd (step rollback_commit_refused committed_session Rollback)"] nrd ncd ch
  have e: "changed (snd (step rollback_commit_refused committed_session Rollback))"
    by simp
  from idle st a cd b dd c ch rd d fl rn e show ?thesis
    by simp
qed

text \<open>
  The claim as stated says that no operation changes a flag when it fails. On a
  session with locking, a staged candidate and a device that commits and then refuses
  the lock, \<open>commit_config\<close> raises \<open>LockError\<close> with \<open>loaded\<close> turned false and
  \<open>changed\<close> turned true.
\<close>

theorem failed_commit_config_changes_flags:
  "loaded staged_session \<and> changed staged_session = False \<and>
   fst (step relock_refused staged_session (CommitConfig ''push'')) =
     Some (LockError ''Failed to aquire config-lock: config is locked'') \<and>
   loaded (snd (step relock_refused staged_session (CommitConfig ''push''))) = False \<and>
   changed (snd (step relock_refused staged_session (CommitConfig ''push'')))"
  by code_simp

section \<open>Commit\<close>





section \<open>Rollback\<close>



section \<open>Staging and the backup\<close>






section \<open>Reading the configuration\<close>




end
